theory Spec2Isabelle
  imports Main "HOL-Library.AList"
begin

section \<open>JavaScript values and built-ins\<close>

text \<open>
  The QR code logic of the repository is the JavaScript of
  \<^verbatim>\<open>docs/guides/qr-code-usage.md\<close>: the generators of \<^verbatim>\<open>utils/qrGenerator.js\<close>,
  the scanner's callback of \<^verbatim>\<open>components/QRCodeScanner.js\<close>, the validator and the
  three processors of \<^verbatim>\<open>utils/qrProcessor.js\<close>, the handler of
  \<^verbatim>\<open>pages/api/qr/process.js\<close>, and \<^verbatim>\<open>signQRData\<close> and \<^verbatim>\<open>checkRateLimit\<close> of the
  object \<^verbatim>\<open>secureQRGeneration\<close>.

  A scanned payload is whatever \<^verbatim>\<open>JSON.parse\<close> returns, so the data is modelled as
  untyped JavaScript values. Numbers are integers (the payloads carry millisecond
  timestamps); an object is the list of its own properties in insertion order.
\<close>

datatype jsval =
    JUndefined
  | JNull
  | JBool bool
  | JNum int
  | JStr string
  | JArr "jsval list"
  | JObj "(string \<times> jsval) list"

text \<open>
  Every \<^verbatim>\<open>throw\<close> of the code is a value. \<open>JsonSyntaxError\<close>, \<open>JsTypeError\<close>,
  \<open>JsReferenceError\<close> and \<open>NetworkError\<close> are raised by the JavaScript runtime or by
  \<^verbatim>\<open>fetch\<close>, the others are the messages the code passes to \<^verbatim>\<open>new Error\<close> or to
  \<^verbatim>\<open>res.status(...).json\<close>.
\<close>

datatype qr_error =
    JsonSyntaxError         \<comment> \<open>\<^verbatim>\<open>JSON.parse\<close> or \<^verbatim>\<open>response.json()\<close> rejected its input\<close>
  | JsTypeError             \<comment> \<open>property read on null or undefined, call of a non-function\<close>
  | NetworkError            \<comment> \<open>\<^verbatim>\<open>fetch\<close> rejected\<close>
  | MethodNotAllowed        \<comment> \<open>\<^verbatim>\<open>'Method not allowed'\<close>\<close>
  | InvalidFormat           \<comment> \<open>\<^verbatim>\<open>'Invalid QR code format'\<close>\<close>
  | QRExpired               \<comment> \<open>\<^verbatim>\<open>'QR code has expired'\<close>\<close>
  | WrongTypeCheckin        \<comment> \<open>\<^verbatim>\<open>'Invalid QR code type for check-in'\<close>\<close>
  | WrongTypeLocation       \<comment> \<open>\<^verbatim>\<open>'Invalid QR code type for location check-in'\<close>\<close>
  | WrongTypeDocument       \<comment> \<open>\<^verbatim>\<open>'Invalid QR code type for document access'\<close>\<close>
  | DifferentEmployee       \<comment> \<open>\<^verbatim>\<open>'QR code belongs to different employee'\<close>\<close>
  | RequestFailed jsval     \<comment> \<open>\<^verbatim>\<open>error.message || '... failed'\<close> of a response that is not ok\<close>
  | UnsupportedType         \<comment> \<open>\<^verbatim>\<open>'Unsupported QR code type'\<close>\<close>
  | RateLimitExceeded       \<comment> \<open>\<^verbatim>\<open>'Rate limit exceeded'\<close>\<close>
  | AlreadyProcessed        \<comment> \<open>\<^verbatim>\<open>'QR code already processed'\<close>\<close>
  | JsReferenceError        \<comment> \<open>a name that is not defined where the code runs\<close>
  | GenerationFailed        \<comment> \<open>\<^verbatim>\<open>'Failed to generate QR code'\<close>\<close>

text \<open>
  The library functions the code calls are parameters: \<^verbatim>\<open>JSON.parse\<close> (\<open>None\<close> when it
  throws), \<^verbatim>\<open>JSON.stringify\<close>, the conversion of a string, array or object to a number
  (\<open>Inl\<close> when the conversion throws, \<open>Inr None\<close> for NaN) and to a string, and the two
  digests of Node's \<^verbatim>\<open>crypto\<close> module, in hexadecimal.
\<close>

record runtime =
  JSON_parse :: "string \<Rightarrow> jsval option"
  JSON_stringify :: "jsval \<Rightarrow> string"
  ToNumber :: "jsval \<Rightarrow> qr_error + int option"
  ToString :: "jsval \<Rightarrow> string"
  hmac_sha256 :: "string \<Rightarrow> string \<Rightarrow> string"
  sha256 :: "string \<Rightarrow> string"

text \<open>The truth value of \<^verbatim>\<open>v\<close> in \<^verbatim>\<open>v && ...\<close> and \<^verbatim>\<open>v || ...\<close>.\<close>

fun truthy :: "jsval \<Rightarrow> bool" where
  "truthy JUndefined = False"
| "truthy JNull = False"
| "truthy (JBool b) = b"
| "truthy (JNum n) = (n \<noteq> 0)"
| "truthy (JStr s) = (s \<noteq> [])"
| "truthy (JArr xs) = True"
| "truthy (JObj fs) = True"

text \<open>
  \<^verbatim>\<open>v.k\<close> for the property names the code reads (\<^verbatim>\<open>type\<close>, \<^verbatim>\<open>expiresAt\<close>,
  \<^verbatim>\<open>employeeId\<close>, ...), none of which a prototype defines: an own property of an
  object, and \<^verbatim>\<open>undefined\<close> otherwise. The code reads properties of validated data
  and of parsed response bodies only; the read on \<^verbatim>\<open>null\<close>, which throws, is a case
  of its own where it can happen.
\<close>

fun getProp :: "jsval \<Rightarrow> string \<Rightarrow> jsval" where
  "getProp (JObj fs) k = (case map_of fs k of None \<Rightarrow> JUndefined | Some v \<Rightarrow> v)"
| "getProp v k = JUndefined"

section \<open>The validator: \<^verbatim>\<open>QRCodeProcessor.validateQRData\<close>\<close>

definition requiredFields :: "string list" where
  "requiredFields = [''type'', ''timestamp'']"

text \<open>
  \<^verbatim>\<open>requiredFields.every(field => data.hasOwnProperty(field))\<close>. On \<^verbatim>\<open>null\<close> and
  \<^verbatim>\<open>undefined\<close> the method lookup throws; an object whose own property
  \<^verbatim>\<open>hasOwnProperty\<close> shadows the inherited method has a value there that cannot be
  called; a string, number, boolean or array owns indices and \<^verbatim>\<open>length\<close> only,
  never a required field.
\<close>

fun hasRequiredFields :: "jsval \<Rightarrow> qr_error + bool" where
  "hasRequiredFields JUndefined = Inl JsTypeError"
| "hasRequiredFields JNull = Inl JsTypeError"
| "hasRequiredFields (JObj fs) =
     (if map_of fs ''hasOwnProperty'' \<noteq> None then Inl JsTypeError
      else Inr (list_all (\<lambda>field. map_of fs field \<noteq> None) requiredFields))"
| "hasRequiredFields v = Inr False"

text \<open>\<^verbatim>\<open>Date.now() > v\<close>: both sides are converted to numbers, NaN compares false.\<close>

fun now_gt :: "runtime \<Rightarrow> int \<Rightarrow> jsval \<Rightarrow> qr_error + bool" where
  "now_gt rt now (JNum n) = Inr (now > n)"
| "now_gt rt now (JBool b) = Inr (now > (if b then 1 else 0))"
| "now_gt rt now JNull = Inr (now > 0)"
| "now_gt rt now JUndefined = Inr False"
| "now_gt rt now v =
     (case ToNumber rt v of
        Inl e \<Rightarrow> Inl e
      | Inr None \<Rightarrow> Inr False
      | Inr (Some n) \<Rightarrow> Inr (now > n))"

text \<open>
  \<open>validateQRData rt now data\<close> is the call \<^verbatim>\<open>validateQRData(data)\<close> when
  \<^verbatim>\<open>Date.now()\<close> reads \<open>now\<close>. \<open>Inr d\<close> is \<^verbatim>\<open>{ isValid: true, data: d }\<close> and \<open>Inl e\<close>
  is \<^verbatim>\<open>{ isValid: false, error: e.message }\<close>: the \<^verbatim>\<open>catch\<close> turns every exception
  of the body into such a result.
\<close>

definition parseIfString :: "runtime \<Rightarrow> jsval \<Rightarrow> qr_error + jsval" where
  "parseIfString rt data =
     (case data of
        JStr s \<Rightarrow> (case JSON_parse rt s of None \<Rightarrow> Inl JsonSyntaxError | Some v \<Rightarrow> Inr v)
      | _ \<Rightarrow> Inr data)"

definition checkExpiration :: "runtime \<Rightarrow> int \<Rightarrow> jsval \<Rightarrow> qr_error + jsval" where
  "checkExpiration rt now data =
     (let expiresAt = getProp data ''expiresAt'' in
      if truthy expiresAt then
        (case now_gt rt now expiresAt of
           Inl e \<Rightarrow> Inl e
         | Inr True \<Rightarrow> Inl QRExpired
         | Inr False \<Rightarrow> Inr data)
      else Inr data)"

definition validateQRData :: "runtime \<Rightarrow> int \<Rightarrow> jsval \<Rightarrow> qr_error + jsval" where
  "validateQRData rt now data0 =
     (case parseIfString rt data0 of
        Inl e \<Rightarrow> Inl e
      | Inr data \<Rightarrow>
          (case hasRequiredFields data of
             Inl e \<Rightarrow> Inl e
           | Inr False \<Rightarrow> Inl InvalidFormat
           | Inr True \<Rightarrow> checkExpiration rt now data))"

section \<open>The generators: \<^verbatim>\<open>QRCodeGenerator\<close>\<close>





text \<open>
  Each generator builds a payload object, serialises it with \<^verbatim>\<open>JSON.stringify\<close> and
  returns the data URL of the image that encodes the string. \<open>t1\<close> and \<open>t2\<close> are the
  readings of the two \<^verbatim>\<open>Date.now()\<close> calls, in the order the object literal makes
  them.
\<close>

definition employeePayload :: "jsval \<Rightarrow> jsval \<Rightarrow> int \<Rightarrow> int \<Rightarrow> jsval" where
  "employeePayload employeeId expiresAt t1 t2 =
     JObj [(''type'', JStr ''employee_checkin''),
           (''employeeId'', employeeId),
           (''timestamp'', JNum t1),
           (''expiresAt'', if truthy expiresAt then expiresAt else JNum (t2 + 24 * 60 * 60 * 1000))]"







section \<open>Signatures and the rate limit: \<^verbatim>\<open>secureQRGeneration\<close>\<close>

text \<open>
  \<^verbatim>\<open>signQRData\<close> requires Node's \<^verbatim>\<open>crypto\<close> module and adds the keyed digest of the
  serialised data: \<^verbatim>\<open>{ ...data, signature }\<close> replaces the value of an own property
  \<^verbatim>\<open>signature\<close> in place and appends it otherwise.
\<close>

definition signQRData :: "runtime \<Rightarrow> (string \<times> jsval) list \<Rightarrow> string \<Rightarrow> (string \<times> jsval) list" where
  "signQRData rt data secretKey =
     (let signature = hmac_sha256 rt secretKey (JSON_stringify rt (JObj data))
      in AList.update ''signature'' (JStr signature) data)"

text \<open>
  \<^verbatim>\<open>rateLimitQRGeneration\<close> is a \<^verbatim>\<open>Map\<close> from user ids to the times of their accepted
  requests, a property of the object \<^verbatim>\<open>secureQRGeneration\<close>. \<^verbatim>\<open>checkRateLimit\<close>, a
  property of the same object, names it \<^verbatim>\<open>this.rateLimitQRGeneration\<close>. It is written
  as an arrow function, so its \<^verbatim>\<open>this\<close> is the \<^verbatim>\<open>this\<close> of the code around the object
  literal and not the object. \<open>thisRateLimitQRGeneration\<close> is what the expression
  \<^verbatim>\<open>this.rateLimitQRGeneration\<close> evaluates to: \<open>Some\<close> map, or \<open>None\<close> when it is
  \<^verbatim>\<open>undefined\<close> or cannot be read, and then \<^verbatim>\<open>.get\<close> throws. The object literal of
  the source is a top-level \<^verbatim>\<open>const\<close>: around it \<^verbatim>\<open>this\<close> is \<^verbatim>\<open>undefined\<close> or the
  module's empty export object, so every call the source makes is one with \<open>None\<close>.
  \<open>Inl\<close> is a \<^verbatim>\<open>throw\<close>; \<open>Inr\<close> is the map after \<^verbatim>\<open>set\<close>.
\<close>

definition requestsOf :: "(string \<rightharpoonup> int list) \<Rightarrow> string \<Rightarrow> int list" where
  "requestsOf rateLimitQRGeneration userId =
     (case rateLimitQRGeneration userId of None \<Rightarrow> [] | Some recorded \<Rightarrow> recorded)"

definition checkRateLimit :: "(string \<rightharpoonup> int list) option \<Rightarrow> int \<Rightarrow> string
    \<Rightarrow> qr_error + (string \<rightharpoonup> int list)" where
  "checkRateLimit thisRateLimitQRGeneration now userId =
     (case thisRateLimitQRGeneration of
        None \<Rightarrow> Inl JsTypeError
      | Some rateLimitQRGeneration \<Rightarrow>
          (let userRequests = requestsOf rateLimitQRGeneration userId;
               recentRequests = filter (\<lambda>time. now - time < 60000) userRequests
           in if length recentRequests \<ge> 10 then Inl RateLimitExceeded
              else Inr (rateLimitQRGeneration(userId \<mapsto> recentRequests @ [now]))))"

section \<open>The world the processors act on\<close>

text \<open>
  A processor sends one HTTP request to the attendance or document API
  (\<^verbatim>\<open>fetch\<close>). The world holds what the code reads and writes outside its arguments:
  the \<^verbatim>\<open>token\<close> item of the browser's \<^verbatim>\<open>localStorage\<close>, the requests sent so far
  (oldest first) and the \<^verbatim>\<open>Set\<close> \<^verbatim>\<open>secureQRProcessing.processedQRs\<close> of replay
  records. The one function of the source that names the set, \<^verbatim>\<open>checkReplayAttack\<close>, is
  called by no processor and by no handler.
\<close>

record request =
  url :: string
  httpMethod :: string
  contentType :: string
  authorization :: string
  body :: string

record response =
  ok :: bool
  json :: "jsval option"    \<comment> \<open>\<^verbatim>\<open>await response.json()\<close>; \<open>None\<close> when it rejects\<close>

record world =
  token :: "string option"
  sent :: "request list"
  processedQRs :: "string set"

definition post :: "world \<Rightarrow> string \<Rightarrow> string \<Rightarrow> request" where
  "post w u b =
     \<lparr>url = u, httpMethod = ''POST'', contentType = ''application/json'',
      authorization = ''Bearer '' @ (case token w of None \<Rightarrow> ''null'' | Some t \<Rightarrow> t),
      body = b\<rparr>"

text \<open>
  What follows \<^verbatim>\<open>await fetch(...)\<close> in each processor; \<open>dflt\<close> is the message after
  \<^verbatim>\<open>||\<close>. \<open>None\<close> is a \<^verbatim>\<open>fetch\<close> that rejects.
\<close>

definition awaitResponse :: "string \<Rightarrow> response option \<Rightarrow> qr_error + jsval" where
  "awaitResponse dflt r =
     (case r of
        None \<Rightarrow> Inl NetworkError
      | Some resp \<Rightarrow>
          (case json resp of
             None \<Rightarrow> Inl JsonSyntaxError
           | Some v \<Rightarrow>
               if ok resp then Inr v
               else if v = JNull \<or> v = JUndefined then Inl JsTypeError
               else Inl (RequestFailed
                          (if truthy (getProp v ''message'') then getProp v ''message'' else JStr dflt))))"

text \<open>
  A processor runs without interruption up to its \<^verbatim>\<open>await fetch(...)\<close>: it either
  throws or issues its request. \<open>send\<close> is that request going out and the rest of the
  processor running on the answer.
\<close>

definition send :: "(request \<Rightarrow> response option) \<Rightarrow> string \<Rightarrow> qr_error + request \<Rightarrow> world
    \<Rightarrow> (qr_error + jsval) \<times> world" where
  "send fetch dflt r w =
     (case r of
        Inl e \<Rightarrow> (Inl e, w)
      | Inr rq \<Rightarrow> (awaitResponse dflt (fetch rq), w\<lparr>sent := sent w @ [rq]\<rparr>))"

section \<open>The processors: \<^verbatim>\<open>QRCodeProcessor.process...\<close>\<close>

text \<open>
  \<open>now\<close> is the reading of \<^verbatim>\<open>Date.now()\<close> inside the processor's own call of
  \<^verbatim>\<open>validateQRData\<close>, \<open>ts\<close> the later one that stamps the request. The user id is the
  string \<^verbatim>\<open>user.id\<close>; \<^verbatim>\<open>!==\<close> compares it with the payload's value without
  conversion.
\<close>

definition employeeCheckinRequest :: "runtime \<Rightarrow> int \<Rightarrow> int \<Rightarrow> jsval \<Rightarrow> string \<Rightarrow> world
    \<Rightarrow> qr_error + request" where
  "employeeCheckinRequest rt now ts qrData currentUserId w =
     (case validateQRData rt now qrData of
        Inl e \<Rightarrow> Inl e
      | Inr data \<Rightarrow>
          if getProp data ''type'' \<noteq> JStr ''employee_checkin'' then Inl WrongTypeCheckin
          else if getProp data ''employeeId'' \<noteq> JStr currentUserId then Inl DifferentEmployee
          else Inr (post w ''/api/attendance/checkin''
                 (JSON_stringify rt
                    (JObj [(''qrData'', data), (''timestamp'', JNum ts),
                           (''method'', JStr ''qr_code'')]))))"

definition processEmployeeCheckin :: "runtime \<Rightarrow> (request \<Rightarrow> response option) \<Rightarrow> int \<Rightarrow> int
    \<Rightarrow> jsval \<Rightarrow> string \<Rightarrow> world \<Rightarrow> (qr_error + jsval) \<times> world" where
  "processEmployeeCheckin rt fetch now ts qrData currentUserId w =
     send fetch ''Check-in failed'' (employeeCheckinRequest rt now ts qrData currentUserId w) w"

definition locationCheckinRequest :: "runtime \<Rightarrow> int \<Rightarrow> int \<Rightarrow> jsval \<Rightarrow> string \<Rightarrow> world
    \<Rightarrow> qr_error + request" where
  "locationCheckinRequest rt now ts qrData userId w =
     (case validateQRData rt now qrData of
        Inl e \<Rightarrow> Inl e
      | Inr data \<Rightarrow>
          if getProp data ''type'' \<noteq> JStr ''location_checkin'' then Inl WrongTypeLocation
          else Inr (post w ''/api/attendance/location-checkin''
                 (JSON_stringify rt
                    (JObj [(''locationId'', getProp data ''locationId''),
                           (''userId'', JStr userId), (''timestamp'', JNum ts)]))))"

definition processLocationCheckin :: "runtime \<Rightarrow> (request \<Rightarrow> response option) \<Rightarrow> int \<Rightarrow> int
    \<Rightarrow> jsval \<Rightarrow> string \<Rightarrow> world \<Rightarrow> (qr_error + jsval) \<times> world" where
  "processLocationCheckin rt fetch now ts qrData userId w =
     send fetch ''Location check-in failed'' (locationCheckinRequest rt now ts qrData userId w) w"

text \<open>The template literal converts \<^verbatim>\<open>data.documentId\<close> to a string.\<close>

definition template :: "runtime \<Rightarrow> jsval \<Rightarrow> string" where
  "template rt v =
     (case v of
        JStr s \<Rightarrow> s
      | JUndefined \<Rightarrow> ''undefined''
      | JNull \<Rightarrow> ''null''
      | JBool b \<Rightarrow> (if b then ''true'' else ''false'')
      | _ \<Rightarrow> ToString rt v)"

definition documentAccessRequest :: "runtime \<Rightarrow> int \<Rightarrow> jsval \<Rightarrow> string \<Rightarrow> world
    \<Rightarrow> qr_error + request" where
  "documentAccessRequest rt now qrData userId w =
     (case validateQRData rt now qrData of
        Inl e \<Rightarrow> Inl e
      | Inr data \<Rightarrow>
          if getProp data ''type'' \<noteq> JStr ''document_access'' then Inl WrongTypeDocument
          else Inr (post w (''/api/documents/'' @ template rt (getProp data ''documentId'') @ ''/access'')
                 (JSON_stringify rt
                    (JObj [(''accessLevel'', getProp data ''accessLevel''),
                           (''userId'', JStr userId)]))))"

definition processDocumentAccess :: "runtime \<Rightarrow> (request \<Rightarrow> response option) \<Rightarrow> int
    \<Rightarrow> jsval \<Rightarrow> string \<Rightarrow> world \<Rightarrow> (qr_error + jsval) \<times> world" where
  "processDocumentAccess rt fetch now qrData userId w =
     send fetch ''Document access failed'' (documentAccessRequest rt now qrData userId w) w"

subsection \<open>Check-ins in flight\<close>

text \<open>
  \<^verbatim>\<open>processEmployeeCheckin\<close> is an \<^verbatim>\<open>async\<close> function: a call runs to its
  \<^verbatim>\<open>await fetch(...)\<close>, is suspended there while other calls run, and is resumed with
  the answer. A call is \<open>Called\<close> with its clock readings and arguments before it has
  started, \<open>Awaiting\<close> the answer to the request it has sent, or \<open>Returned\<close>.
  \<open>resume\<close> runs a call up to its next suspension; \<open>interleave\<close> runs two calls
  under a schedule that says, step by step, which of them goes next (\<open>True\<close> for the
  first).
\<close>

datatype checkin =
    Called int int jsval string
  | Awaiting request
  | Returned "qr_error + jsval"

fun resume :: "runtime \<Rightarrow> (request \<Rightarrow> response option) \<Rightarrow> checkin \<Rightarrow> world \<Rightarrow> checkin \<times> world" where
  "resume rt fetch (Called now ts qrData currentUserId) w =
     (case employeeCheckinRequest rt now ts qrData currentUserId w of
        Inl e \<Rightarrow> (Returned (Inl e), w)
      | Inr rq \<Rightarrow> (Awaiting rq, w\<lparr>sent := sent w @ [rq]\<rparr>))"
| "resume rt fetch (Awaiting rq) w = (Returned (awaitResponse ''Check-in failed'' (fetch rq)), w)"
| "resume rt fetch (Returned r) w = (Returned r, w)"

fun interleave :: "runtime \<Rightarrow> (request \<Rightarrow> response option) \<Rightarrow> bool list
    \<Rightarrow> checkin \<times> checkin \<times> world \<Rightarrow> checkin \<times> checkin \<times> world" where
  "interleave rt fetch [] c = c"
| "interleave rt fetch (first # schedule) (a, b, w) =
     (if first
      then interleave rt fetch schedule
             (fst (resume rt fetch a w), b, snd (resume rt fetch a w))
      else interleave rt fetch schedule
             (a, fst (resume rt fetch b w), snd (resume rt fetch b w)))"

text \<open>
  \<open>outcome\<close> is the result a call returns once it has run to its end.
\<close>

fun outcome :: "runtime \<Rightarrow> (request \<Rightarrow> response option) \<Rightarrow> checkin \<Rightarrow> world \<Rightarrow> qr_error + jsval" where
  "outcome rt fetch (Called now ts qrData currentUserId) w =
     fst (processEmployeeCheckin rt fetch now ts qrData currentUserId w)"
| "outcome rt fetch (Awaiting rq) w = awaitResponse ''Check-in failed'' (fetch rq)"
| "outcome rt fetch (Returned r) w = r"

section \<open>The handler of \<^verbatim>\<open>POST /api/qr/process\<close>\<close>

record qr_request =
  reqMethod :: string
  reqQrData :: jsval     \<comment> \<open>\<^verbatim>\<open>req.body.qrData\<close>\<close>
  reqUserId :: string    \<comment> \<open>\<^verbatim>\<open>req.user.id\<close>\<close>

text \<open>
  The answer is the HTTP status with \<open>Inl e\<close> for the body \<^verbatim>\<open>{ error: ... }\<close> and
  \<open>Inr r\<close> for \<^verbatim>\<open>res.json(r)\<close>. \<open>t0\<close> is the clock reading of the handler's own
  validation, \<open>now\<close> the reading inside the processor it calls. The \<^verbatim>\<open>catch\<close> answers
  400 with the message of whatever the processor throws.

  The handler runs on the server, where the \<^verbatim>\<open>localStorage\<close> that the processors read
  is not defined: a processor that has passed its own checks throws while it builds
  the headers of its request, before \<^verbatim>\<open>Date.now()\<close> stamps the body and before
  \<^verbatim>\<open>fetch\<close> is called.
\<close>

definition onServer :: "qr_error + request \<Rightarrow> qr_error + jsval" where
  "onServer r =
     (case r of
        Inl e \<Rightarrow> Inl e
      | Inr rq \<Rightarrow> Inl JsReferenceError)"

definition answer :: "(qr_error + jsval) \<times> world \<Rightarrow> (nat \<times> (qr_error + jsval)) \<times> world" where
  "answer r =
     (case fst r of
        Inl e \<Rightarrow> ((400, Inl e), snd r)
      | Inr result \<Rightarrow> ((200, Inr result), snd r))"

definition processQRHandler :: "runtime \<Rightarrow> (request \<Rightarrow> response option) \<Rightarrow> int \<Rightarrow> int \<Rightarrow> int
    \<Rightarrow> qr_request \<Rightarrow> world \<Rightarrow> (nat \<times> (qr_error + jsval)) \<times> world" where
  "processQRHandler rt fetch t0 now ts req w =
     (if reqMethod req \<noteq> ''POST'' then ((405, Inl MethodNotAllowed), w)
      else
        (case validateQRData rt t0 (reqQrData req) of
           Inl e \<Rightarrow> ((400, Inl e), w)
         | Inr data \<Rightarrow>
             if getProp data ''type'' = JStr ''employee_checkin'' then
               answer (onServer (employeeCheckinRequest rt now ts data (reqUserId req) w), w)
             else if getProp data ''type'' = JStr ''location_checkin'' then
               answer (onServer (locationCheckinRequest rt now ts data (reqUserId req) w), w)
             else if getProp data ''type'' = JStr ''document_access'' then
               answer (onServer (documentAccessRequest rt now data (reqUserId req) w), w)
             else ((400, Inl UnsupportedType), w)))"

section \<open>An instance of the built-ins\<close>

text \<open>
  To run the model on concrete payloads the built-ins need values. \<open>demoRuntime p\<close>
  serialises the one value \<open>p\<close> as \<^verbatim>\<open><p>\<close> and parses that string back to \<open>p\<close>; every
  other value is serialised as \<^verbatim>\<open><q>\<close> and no other string parses. The keyed digest
  is the key followed by the message, the plain digest is the message itself.
\<close>

definition demoRuntime :: "jsval \<Rightarrow> runtime" where
  "demoRuntime p =
     \<lparr>JSON_parse = (\<lambda>s. if s = ''<p>'' then Some p else None),
      JSON_stringify = (\<lambda>v. if v = p then ''<p>'' else ''<q>''),
      ToNumber = (\<lambda>v. Inr None),
      ToString = (\<lambda>v. ''[object Object]''),
      hmac_sha256 = (\<lambda>k s. k @ s),
      sha256 = (\<lambda>s. s)\<rparr>"

text \<open>An upstream that answers every request with \<^verbatim>\<open>ok\<close> and the body \<^verbatim>\<open>{}\<close>.\<close>

definition upstreamOk :: "request \<Rightarrow> response option" where
  "upstreamOk rq = Some \<lparr>ok = True, json = Some (JObj [])\<rparr>"


section \<open>What a successful validation means\<close>

lemma hasRequiredFields_True:
  "hasRequiredFields data = Inr True \<Longrightarrow>
   \<exists>fs. data = JObj fs \<and> map_of fs ''hasOwnProperty'' = None
        \<and> map_of fs ''type'' \<noteq> None \<and> map_of fs ''timestamp'' \<noteq> None"
  by (cases data) (auto simp: requiredFields_def split: if_splits)

lemma checkExpiration_Inr: "checkExpiration rt now data = Inr d \<Longrightarrow> d = data"
  by (auto simp: checkExpiration_def Let_def split: if_splits sum.splits bool.splits)

lemma validateQRData_Inr:
  assumes "validateQRData rt now data0 = Inr d"
  shows "parseIfString rt data0 = Inr d \<and> hasRequiredFields d = Inr True
         \<and> checkExpiration rt now d = Inr d"
  using assms
  by (auto simp: validateQRData_def split: sum.splits bool.splits dest: checkExpiration_Inr)

lemma parseIfString_JObj [simp]: "parseIfString rt (JObj fs) = Inr (JObj fs)"
  by (simp add: parseIfString_def)

text \<open>
  On an input that is, or parses to, an object that does not shadow
  \<^verbatim>\<open>hasOwnProperty\<close>, the validator is the presence test followed by the expiry test.
\<close>

lemma validateQRData_parsed:
  assumes "parseIfString rt data0 = Inr (JObj fs)" and "map_of fs ''hasOwnProperty'' = None"
  shows "validateQRData rt now data0 =
     (if map_of fs ''type'' \<noteq> None \<and> map_of fs ''timestamp'' \<noteq> None
      then checkExpiration rt now (JObj fs) else Inl InvalidFormat)"
  using assms by (simp add: validateQRData_def requiredFields_def)

lemma validate_string:
  assumes "JSON_parse rt s = Some (JObj fs)"
  shows "validateQRData rt now (JStr s) = validateQRData rt now (JObj fs)"
  using assms by (simp add: validateQRData_def parseIfString_def)

section \<open>Unknown payload types\<close>

text \<open>
  Claim C4 as stated fails: the validator only asks whether a \<^verbatim>\<open>type\<close> property exists.
  The payload \<^verbatim>\<open>{ type: 'bogus', timestamp: 1 }\<close> is returned as valid.
\<close>

theorem unknown_type_counterexample:
  "validateQRData (demoRuntime JNull) 1000 (JObj [(''type'', JStr ''bogus''), (''timestamp'', JNum 1)])
     = Inr (JObj [(''type'', JStr ''bogus''), (''timestamp'', JNum 1)])"
  by (simp add: validateQRData_def requiredFields_def checkExpiration_def)

text \<open>
  Claim C4, amended: a payload whose \<^verbatim>\<open>type\<close> is none of \<^verbatim>\<open>employee_checkin\<close>,
  \<^verbatim>\<open>location_checkin\<close> and \<^verbatim>\<open>document_access\<close> is rejected at dispatch, not at
  validation: once the validator has accepted it, \<^verbatim>\<open>processQRHandler\<close> answers 400 with
  \<^verbatim>\<open>'Unsupported QR code type'\<close> and leaves the world untouched (no request is sent).
\<close>

theorem unknown_type_rejected_at_dispatch:
  assumes "reqMethod req = ''POST''"
    and "validateQRData rt t0 (reqQrData req) = Inr data"
    and "getProp data ''type''
           \<notin> {JStr ''employee_checkin'', JStr ''location_checkin'', JStr ''document_access''}"
  shows "processQRHandler rt fetch t0 now ts req w = ((400, Inl UnsupportedType), w)"
  using assms by (simp add: processQRHandler_def)

text \<open>The amended claim C4 at the payload \<^verbatim>\<open>{ type: 'bogus', timestamp: 1 }\<close>.\<close>

theorem unknown_type_rejected_at_dispatch_witness:
  "reqMethod \<lparr>reqMethod = ''POST'',
             reqQrData = JObj [(''type'', JStr ''bogus''), (''timestamp'', JNum 1)],
             reqUserId = ''emp-1''\<rparr> = ''POST''
   \<and> validateQRData (demoRuntime JNull) 1000
        (JObj [(''type'', JStr ''bogus''), (''timestamp'', JNum 1)])
      = Inr (JObj [(''type'', JStr ''bogus''), (''timestamp'', JNum 1)])
   \<and> processQRHandler (demoRuntime JNull) upstreamOk 1000 1001 1002
        \<lparr>reqMethod = ''POST'',
         reqQrData = JObj [(''type'', JStr ''bogus''), (''timestamp'', JNum 1)],
         reqUserId = ''emp-1''\<rparr>
        \<lparr>token = None, sent = [], processedQRs = {}\<rparr>
      = ((400, Inl UnsupportedType), \<lparr>token = None, sent = [], processedQRs = {}\<rparr>)"
proof -
  let ?p = "JObj [(''type'', JStr ''bogus''), (''timestamp'', JNum 1)]"
  let ?req = "\<lparr>reqMethod = ''POST'', reqQrData = ?p, reqUserId = ''emp-1''\<rparr>"
  have m: "reqMethod ?req = ''POST''" by simp
  have v: "validateQRData (demoRuntime JNull) 1000 (reqQrData ?req) = Inr ?p"
    by (simp add: validateQRData_def requiredFields_def checkExpiration_def)
  have t: "getProp ?p ''type''
             \<notin> {JStr ''employee_checkin'', JStr ''location_checkin'', JStr ''document_access''}"
    by simp
  show ?thesis
    using unknown_type_rejected_at_dispatch
      [OF m v t, of upstreamOk 1001 1002 "\<lparr>token = None, sent = [], processedQRs = {}\<rparr>"] v
    by simp
qed

section \<open>Required fields\<close>

text \<open>
  Claim C5 as stated fails: the required fields are \<^verbatim>\<open>type\<close> and \<^verbatim>\<open>timestamp\<close>, and
  only their presence is tested. A payload with no subject id at all and a timestamp
  that is not a number is returned as valid.
\<close>

theorem missing_subject_counterexample:
  "validateQRData (demoRuntime JNull) 1000
      (JObj [(''type'', JStr ''employee_checkin''), (''timestamp'', JStr ''yesterday'')])
     = Inr (JObj [(''type'', JStr ''employee_checkin''), (''timestamp'', JStr ''yesterday'')])"
  by (simp add: validateQRData_def requiredFields_def checkExpiration_def)

text \<open>
  Claim C5, amended: for every raw payload that is, or parses to, an object in which
  the \<^verbatim>\<open>type\<close> or the \<^verbatim>\<open>timestamp\<close> property is missing, validation fails with
  \<^verbatim>\<open>'Invalid QR code format'\<close>. (The kind of the values is not checked and no subject
  id is required. The object is one that has no own property \<^verbatim>\<open>hasOwnProperty\<close>;
  one that has fails too, with the runtime's type error.)
\<close>

theorem missing_required_field:
  assumes "parseIfString rt data0 = Inr (JObj fs)"
    and "map_of fs ''hasOwnProperty'' = None"
    and "map_of fs ''type'' = None \<or> map_of fs ''timestamp'' = None"
  shows "validateQRData rt now data0 = Inl InvalidFormat"
  using assms by (auto simp: validateQRData_parsed)

text \<open>The amended claim C5 at \<^verbatim>\<open>{ employeeId: 'emp-1', timestamp: 1 }\<close>, which has no type.\<close>

theorem missing_required_field_witness:
  "parseIfString (demoRuntime JNull) (JObj [(''employeeId'', JStr ''emp-1''), (''timestamp'', JNum 1)])
     = Inr (JObj [(''employeeId'', JStr ''emp-1''), (''timestamp'', JNum 1)])
   \<and> map_of [(''employeeId'', JStr ''emp-1''), (''timestamp'', JNum 1)] ''hasOwnProperty'' = None
   \<and> map_of [(''employeeId'', JStr ''emp-1''), (''timestamp'', JNum 1)] ''type'' = None
   \<and> validateQRData (demoRuntime JNull) 1000
        (JObj [(''employeeId'', JStr ''emp-1''), (''timestamp'', JNum 1)])
     = Inl InvalidFormat"
  using missing_required_field [of "demoRuntime JNull"
      "JObj [(''employeeId'', JStr ''emp-1''), (''timestamp'', JNum 1)]"
      "[(''employeeId'', JStr ''emp-1''), (''timestamp'', JNum 1)]" 1000]
  by simp

section \<open>Expiry\<close>

text \<open>
  Claim C6 as stated fails at \<^verbatim>\<open>expiresAt: 0\<close>: the test is
  \<^verbatim>\<open>data.expiresAt && Date.now() > data.expiresAt\<close>, and 0 is falsy, so the payload is
  treated as one that never expires and is returned as valid at time 1000.
\<close>

theorem expiry_zero_counterexample:
  "validateQRData (demoRuntime JNull) 1000
      (JObj [(''type'', JStr ''employee_checkin''), (''employeeId'', JStr ''emp-1''),
             (''timestamp'', JNum 0), (''expiresAt'', JNum 0)])
   = Inr (JObj [(''type'', JStr ''employee_checkin''), (''employeeId'', JStr ''emp-1''),
             (''timestamp'', JNum 0), (''expiresAt'', JNum 0)])"
  by (simp add: validateQRData_def requiredFields_def checkExpiration_def Let_def)

text \<open>
  Claim C6, amended: for every payload that is, or parses to, an object with the
  \<^verbatim>\<open>type\<close> and \<^verbatim>\<open>timestamp\<close> properties (and no own property \<^verbatim>\<open>hasOwnProperty\<close>)
  and whose \<^verbatim>\<open>expiresAt\<close> is an integer other than 0, validation at a time
  \<open>now > expiresAt\<close> fails with \<^verbatim>\<open>'QR code has expired'\<close>, whatever the other
  properties hold.
\<close>

theorem expired_rejected:
  assumes "parseIfString rt data0 = Inr (JObj fs)"
    and "map_of fs ''hasOwnProperty'' = None"
    and "map_of fs ''type'' \<noteq> None" and "map_of fs ''timestamp'' \<noteq> None"
    and "map_of fs ''expiresAt'' = Some (JNum e)" and "e \<noteq> 0" and "now > e"
  shows "validateQRData rt now data0 = Inl QRExpired"
  using assms by (simp add: validateQRData_parsed checkExpiration_def)

text \<open>
  The amended claim C6 on the spec's scenario: a check-in code that expires at 1000
  is validated at 2000.
\<close>

theorem expired_rejected_witness:
  "parseIfString (demoRuntime JNull)
      (JObj [(''type'', JStr ''employee_checkin''), (''employeeId'', JStr ''emp-1''),
             (''timestamp'', JNum 0), (''expiresAt'', JNum 1000)])
     = Inr (JObj [(''type'', JStr ''employee_checkin''), (''employeeId'', JStr ''emp-1''),
             (''timestamp'', JNum 0), (''expiresAt'', JNum 1000)])
   \<and> (1000::int) \<noteq> 0 \<and> (2000::int) > 1000
   \<and> validateQRData (demoRuntime JNull) 2000
      (JObj [(''type'', JStr ''employee_checkin''), (''employeeId'', JStr ''emp-1''),
             (''timestamp'', JNum 0), (''expiresAt'', JNum 1000)])
     = Inl QRExpired"
  using expired_rejected [of "demoRuntime JNull"
      "JObj [(''type'', JStr ''employee_checkin''), (''employeeId'', JStr ''emp-1''),
             (''timestamp'', JNum 0), (''expiresAt'', JNum 1000)]"
      "[(''type'', JStr ''employee_checkin''), (''employeeId'', JStr ''emp-1''),
             (''timestamp'', JNum 0), (''expiresAt'', JNum 1000)]" 1000 2000]
  by simp

section \<open>Employee check-in\<close>

text \<open>
  Claim C7: for every payload that validates and has type \<^verbatim>\<open>employee_checkin\<close>,
  \<^verbatim>\<open>processEmployeeCheckin\<close> throws \<^verbatim>\<open>'QR code belongs to different employee'\<close> and
  sends nothing when the acting user is not the payload's \<^verbatim>\<open>employeeId\<close>; when they
  are equal it sends the attendance check-in request, stamped with the current time,
  to \<^verbatim>\<open>/api/attendance/checkin\<close> and continues with the answer.
\<close>

theorem employee_checkin_dispatch:
  assumes "validateQRData rt now qrData = Inr data"
    and "getProp data ''type'' = JStr ''employee_checkin''"
  shows "processEmployeeCheckin rt fetch now ts qrData currentUserId w =
     (if getProp data ''employeeId'' = JStr currentUserId
      then (awaitResponse ''Check-in failed''
              (fetch (post w ''/api/attendance/checkin''
                 (JSON_stringify rt (JObj [(''qrData'', data), (''timestamp'', JNum ts),
                                           (''method'', JStr ''qr_code'')])))),
            w\<lparr>sent := sent w @ [post w ''/api/attendance/checkin''
                 (JSON_stringify rt (JObj [(''qrData'', data), (''timestamp'', JNum ts),
                                           (''method'', JStr ''qr_code'')]))]\<rparr>)
      else (Inl DifferentEmployee, w))"
  using assms by (simp add: processEmployeeCheckin_def employeeCheckinRequest_def send_def)

text \<open>
  Claim C7 on the spec's scenario: the code generated for \<^verbatim>\<open>emp-1\<close> is refused to
  \<^verbatim>\<open>emp-2\<close> and, redeemed by \<^verbatim>\<open>emp-1\<close>, produces one request.
\<close>

theorem employee_checkin_dispatch_witness:
  "validateQRData (demoRuntime JNull) 2000 (employeePayload (JStr ''emp-1'') JNull 1000 1000)
     = Inr (employeePayload (JStr ''emp-1'') JNull 1000 1000)
   \<and> getProp (employeePayload (JStr ''emp-1'') JNull 1000 1000) ''type'' = JStr ''employee_checkin''
   \<and> processEmployeeCheckin (demoRuntime JNull) upstreamOk
        2000 2001 (employeePayload (JStr ''emp-1'') JNull 1000 1000) ''emp-2''
        \<lparr>token = Some ''abc'', sent = [], processedQRs = {}\<rparr>
     = (Inl DifferentEmployee, \<lparr>token = Some ''abc'', sent = [], processedQRs = {}\<rparr>)
   \<and> processEmployeeCheckin (demoRuntime JNull) upstreamOk
        2000 2001 (employeePayload (JStr ''emp-1'') JNull 1000 1000) ''emp-1''
        \<lparr>token = Some ''abc'', sent = [], processedQRs = {}\<rparr>
     = (Inr (JObj []),
        \<lparr>token = Some ''abc'',
         sent = [\<lparr>url = ''/api/attendance/checkin'', httpMethod = ''POST'',
                  contentType = ''application/json'', authorization = ''Bearer abc'',
                  body = ''<q>''\<rparr>],
         processedQRs = {}\<rparr>)"
proof -
  let ?p = "employeePayload (JStr ''emp-1'') JNull 1000 1000"
  let ?w = "\<lparr>token = Some ''abc'', sent = [], processedQRs = {}\<rparr>"
  let ?f = upstreamOk
  have v: "validateQRData (demoRuntime JNull) 2000 ?p = Inr ?p"
    by (simp add: employeePayload_def validateQRData_def requiredFields_def checkExpiration_def)
  have t: "getProp ?p ''type'' = JStr ''employee_checkin''"
    by (simp add: employeePayload_def)
  have e: "getProp ?p ''employeeId'' = JStr ''emp-1''"
    by (simp add: employeePayload_def)
  have s: "JSON_stringify (demoRuntime JNull) (JObj kvs) = ''<q>''" for kvs
    by (simp add: demoRuntime_def)
  show ?thesis
    using employee_checkin_dispatch [OF v t, of ?f 2001 "''emp-2''" ?w]
      employee_checkin_dispatch [OF v t, of ?f 2001 "''emp-1''" ?w] v t
    by (simp add: e s post_def awaitResponse_def upstreamOk_def)
qed

section \<open>Generating and validating\<close>








section \<open>Tampering with a signed payload\<close>

lemma checkExpiration_cong:
  assumes "map_of fs ''expiresAt'' = map_of gs ''expiresAt''"
  shows "isl (checkExpiration rt now (JObj fs)) = isl (checkExpiration rt now (JObj gs))"
  using assms by (auto simp: checkExpiration_def Let_def split: sum.splits bool.splits)

lemma validate_tampered:
  assumes "validateQRData rt now (JObj signed) = Inr (JObj signed)"
    and "field \<notin> {''expiresAt'', ''hasOwnProperty''}"
  shows "validateQRData rt now (JObj (AList.update field v signed)) = Inr (JObj (AList.update field v signed))"
proof -
  from validateQRData_Inr [OF assms(1)]
  have h: "hasRequiredFields (JObj signed) = Inr True"
    and c: "checkExpiration rt now (JObj signed) = Inr (JObj signed)" by simp_all
  from hasRequiredFields_True [OF h]
  have s: "map_of signed ''hasOwnProperty'' = None" "map_of signed ''type'' \<noteq> None"
    "map_of signed ''timestamp'' \<noteq> None" by auto
  have e: "map_of (AList.update field v signed) ''expiresAt'' = map_of signed ''expiresAt''"
    using assms(2) by (auto simp: update_conv')
  have "isl (checkExpiration rt now (JObj (AList.update field v signed))) = isl (checkExpiration rt now (JObj signed))"
    using e by (rule checkExpiration_cong)
  then have "\<not> isl (checkExpiration rt now (JObj (AList.update field v signed)))" using c by simp
  then have c': "checkExpiration rt now (JObj (AList.update field v signed)) = Inr (JObj (AList.update field v signed))"
    by (cases "checkExpiration rt now (JObj (AList.update field v signed))") (auto dest: checkExpiration_Inr)
  show ?thesis
    using s c' assms(2) by (auto simp: validateQRData_def requiredFields_def update_conv')
qed

text \<open>
  Claim C1 as stated fails: \<^verbatim>\<open>validateQRData\<close> has no signature step. A check-in code
  signed for \<^verbatim>\<open>emp-1\<close> and altered to \<^verbatim>\<open>emp-2\<close> is returned as valid, the stale
  signature with it.
\<close>

theorem tampering_counterexample:
  "validateQRData
     (demoRuntime (JObj [(''type'', JStr ''employee_checkin''), (''employeeId'', JStr ''emp-1''),
                         (''timestamp'', JNum 1000), (''expiresAt'', JNum 5000)]))
     2000
     (JObj (AList.update ''employeeId'' (JStr ''emp-2'')
        (signQRData
           (demoRuntime (JObj [(''type'', JStr ''employee_checkin''), (''employeeId'', JStr ''emp-1''),
                               (''timestamp'', JNum 1000), (''expiresAt'', JNum 5000)]))
           [(''type'', JStr ''employee_checkin''), (''employeeId'', JStr ''emp-1''),
            (''timestamp'', JNum 1000), (''expiresAt'', JNum 5000)]
           ''key'')))
   = Inr (JObj [(''type'', JStr ''employee_checkin''), (''employeeId'', JStr ''emp-2''),
                (''timestamp'', JNum 1000), (''expiresAt'', JNum 5000),
                (''signature'', JStr ''key<p>'')])"
  by (simp add: signQRData_def demoRuntime_def validateQRData_def requiredFields_def
      checkExpiration_def Let_def)

text \<open>
  Claim C1, amended: the validator does not look at the signature. A payload that was
  signed with a key and then altered in its \<^verbatim>\<open>type\<close> or its subject id validates
  whenever the signed payload did.
\<close>

theorem tampering_after_signing:
  assumes "field \<in> {''type'', ''employeeId'', ''locationId'', ''documentId''}"
    and "validateQRData rt now (JObj (signQRData rt data secretKey))
           = Inr (JObj (signQRData rt data secretKey))"
  shows "validateQRData rt now (JObj (AList.update field v (signQRData rt data secretKey)))
           = Inr (JObj (AList.update field v (signQRData rt data secretKey)))"
proof -
  have "field \<notin> {''expiresAt'', ''hasOwnProperty''}"
    using assms(1) by auto
  with assms(2) show ?thesis by (rule validate_tampered)
qed

text \<open>
  The amended claim C1 on the signed check-in code of \<^verbatim>\<open>emp-1\<close>, its type altered to
  \<^verbatim>\<open>document_access\<close>.
\<close>

theorem tampering_after_signing_witness:
  "''type'' \<in> {''type'', ''employeeId'', ''locationId'', ''documentId''}
   \<and> validateQRData
        (demoRuntime (JObj [(''type'', JStr ''employee_checkin''), (''employeeId'', JStr ''emp-1''),
                            (''timestamp'', JNum 1000), (''expiresAt'', JNum 5000)]))
        2000
        (JObj (signQRData
              (demoRuntime (JObj [(''type'', JStr ''employee_checkin''), (''employeeId'', JStr ''emp-1''),
                                  (''timestamp'', JNum 1000), (''expiresAt'', JNum 5000)]))
              [(''type'', JStr ''employee_checkin''), (''employeeId'', JStr ''emp-1''),
               (''timestamp'', JNum 1000), (''expiresAt'', JNum 5000)]
              ''key''))
      = Inr (JObj [(''type'', JStr ''employee_checkin''), (''employeeId'', JStr ''emp-1''),
                   (''timestamp'', JNum 1000), (''expiresAt'', JNum 5000),
                   (''signature'', JStr ''key<p>'')])
   \<and> validateQRData
        (demoRuntime (JObj [(''type'', JStr ''employee_checkin''), (''employeeId'', JStr ''emp-1''),
                            (''timestamp'', JNum 1000), (''expiresAt'', JNum 5000)]))
        2000
        (JObj (AList.update ''type'' (JStr ''document_access'')
           (signQRData
              (demoRuntime (JObj [(''type'', JStr ''employee_checkin''), (''employeeId'', JStr ''emp-1''),
                                  (''timestamp'', JNum 1000), (''expiresAt'', JNum 5000)]))
              [(''type'', JStr ''employee_checkin''), (''employeeId'', JStr ''emp-1''),
               (''timestamp'', JNum 1000), (''expiresAt'', JNum 5000)]
              ''key'')))
      = Inr (JObj [(''type'', JStr ''document_access''), (''employeeId'', JStr ''emp-1''),
                   (''timestamp'', JNum 1000), (''expiresAt'', JNum 5000),
                   (''signature'', JStr ''key<p>'')])"
proof -
  let ?d = "[(''type'', JStr ''employee_checkin''), (''employeeId'', JStr ''emp-1''),
             (''timestamp'', JNum 1000), (''expiresAt'', JNum 5000)]"
  let ?rt = "demoRuntime (JObj ?d)"
  have f: "''type'' \<in> {''type'', ''employeeId'', ''locationId'', ''documentId''}" by simp
  have s: "signQRData ?rt ?d ''key'' = ?d @ [(''signature'', JStr ''key<p>'')]"
    by (simp add: signQRData_def demoRuntime_def)
  have v: "validateQRData ?rt 2000 (JObj (signQRData ?rt ?d ''key'')) = Inr (JObj (signQRData ?rt ?d ''key''))"
    by (simp add: s) (simp add: validateQRData_def requiredFields_def checkExpiration_def)
  show ?thesis
    using tampering_after_signing [OF f v, of "JStr ''document_access''"] v
    by (simp add: s)
qed

section \<open>Dispatch and the replay set\<close>

text \<open>
  What a processor returns depends on the world through the stored token only, and
  a processor changes nothing but the list of requests sent. The handler changes
  nothing at all.
\<close>

lemma employeeCheckinRequest_token:
  assumes "token w' = token w"
  shows "employeeCheckinRequest rt now ts q u w' = employeeCheckinRequest rt now ts q u w"
  unfolding employeeCheckinRequest_def post_def assms ..

lemma locationCheckinRequest_token:
  assumes "token w' = token w"
  shows "locationCheckinRequest rt now ts q u w' = locationCheckinRequest rt now ts q u w"
  unfolding locationCheckinRequest_def post_def assms ..

lemma documentAccessRequest_token:
  assumes "token w' = token w"
  shows "documentAccessRequest rt now q u w' = documentAccessRequest rt now q u w"
  unfolding documentAccessRequest_def post_def assms ..

lemma send_world:
  "token (snd (send fetch dflt r w)) = token w"
  "processedQRs (snd (send fetch dflt r w)) = processedQRs w"
  by (simp_all add: send_def split: sum.splits)

lemma send_result:
  "fst (send fetch dflt r w) = (case r of Inl e \<Rightarrow> Inl e | Inr rq \<Rightarrow> awaitResponse dflt (fetch rq))"
  by (simp add: send_def split: sum.splits)

lemma processor_world:
  "token (snd (processEmployeeCheckin rt fetch now ts q u w)) = token w"
  "processedQRs (snd (processEmployeeCheckin rt fetch now ts q u w)) = processedQRs w"
  "token (snd (processLocationCheckin rt fetch now ts q u w)) = token w"
  "processedQRs (snd (processLocationCheckin rt fetch now ts q u w)) = processedQRs w"
  "token (snd (processDocumentAccess rt fetch now q u w)) = token w"
  "processedQRs (snd (processDocumentAccess rt fetch now q u w)) = processedQRs w"
  by (simp_all add: processEmployeeCheckin_def processLocationCheckin_def
      processDocumentAccess_def send_world)

lemma processor_result:
  assumes "token w' = token w"
  shows "fst (processEmployeeCheckin rt fetch now ts q u w') = fst (processEmployeeCheckin rt fetch now ts q u w)"
    and "fst (processLocationCheckin rt fetch now ts q u w') = fst (processLocationCheckin rt fetch now ts q u w)"
    and "fst (processDocumentAccess rt fetch now q u w') = fst (processDocumentAccess rt fetch now q u w)"
  unfolding processEmployeeCheckin_def processLocationCheckin_def processDocumentAccess_def send_result
  using employeeCheckinRequest_token [OF assms, of rt now ts q u]
    locationCheckinRequest_token [OF assms, of rt now ts q u]
    documentAccessRequest_token [OF assms, of rt now q u]
  by simp_all

lemma handler_world: "snd (processQRHandler rt fetch t0 now ts req w) = w"
  by (simp add: processQRHandler_def answer_def split: sum.splits)

lemmas run_defs = demoRuntime_def upstreamOk_def employeePayload_def validateQRData_def
  requiredFields_def checkExpiration_def processEmployeeCheckin_def employeeCheckinRequest_def
  send_def post_def awaitResponse_def Let_def

subsection \<open>A second dispatch of the same input\<close>



subsection \<open>When a payload is marked as consumed\<close>

text \<open>
  Claim C3 as stated fails: a successful emission does not mark the payload. After a
  check-in that the upstream accepted, \<^verbatim>\<open>processedQRs\<close> is still empty, and
  dispatching the same payload again sends a second request.
\<close>

theorem consumed_counterexample:
  "processEmployeeCheckin (demoRuntime JNull) upstreamOk
      2000 2001 (employeePayload (JStr ''emp-1'') JNull 1000 1000) ''emp-1''
      \<lparr>token = None, sent = [], processedQRs = {}\<rparr>
   = (Inr (JObj []),
      \<lparr>token = None,
       sent = [\<lparr>url = ''/api/attendance/checkin'', httpMethod = ''POST'',
                contentType = ''application/json'', authorization = ''Bearer null'',
                body = ''<q>''\<rparr>],
       processedQRs = {}\<rparr>)
   \<and> sent (snd (processEmployeeCheckin (demoRuntime JNull) upstreamOk
        2000 2001 (employeePayload (JStr ''emp-1'') JNull 1000 1000) ''emp-1''
        (snd (processEmployeeCheckin (demoRuntime JNull) upstreamOk
           2000 2001 (employeePayload (JStr ''emp-1'') JNull 1000 1000) ''emp-1''
           \<lparr>token = None, sent = [], processedQRs = {}\<rparr>))))
     = [\<lparr>url = ''/api/attendance/checkin'', httpMethod = ''POST'',
         contentType = ''application/json'', authorization = ''Bearer null'', body = ''<q>''\<rparr>,
        \<lparr>url = ''/api/attendance/checkin'', httpMethod = ''POST'',
         contentType = ''application/json'', authorization = ''Bearer null'', body = ''<q>''\<rparr>]"
  by (simp add: run_defs)

text \<open>
  Claim C3, amended: dispatch writes no replay record, whether the emission fails or
  succeeds: \<^verbatim>\<open>processedQRs\<close> is the same before and after
  \<^verbatim>\<open>processEmployeeCheckin\<close>, \<^verbatim>\<open>processLocationCheckin\<close>,
  \<^verbatim>\<open>processDocumentAccess\<close> and \<^verbatim>\<open>processQRHandler\<close>.
\<close>

theorem no_replay_record_by_dispatch:
  "processedQRs (snd (processEmployeeCheckin rt fetch now ts qrData user w)) = processedQRs w
   \<and> processedQRs (snd (processLocationCheckin rt fetch now ts qrData user w)) = processedQRs w
   \<and> processedQRs (snd (processDocumentAccess rt fetch now qrData user w)) = processedQRs w
   \<and> processedQRs (snd (processQRHandler rt fetch t0 now ts req w)) = processedQRs w"
  by (simp add: processor_world handler_world)

subsection \<open>Two check-ins at once\<close>

text \<open>
  Two steps of \<open>resume\<close> are one call of \<^verbatim>\<open>processEmployeeCheckin\<close>, and a step of
  one call changes nothing that the outcome of another call depends on.
\<close>

lemma resume_twice:
  "resume rt fetch (fst (resume rt fetch (Called now ts qrData currentUserId) w))
      (snd (resume rt fetch (Called now ts qrData currentUserId) w))
   = (Returned (fst (processEmployeeCheckin rt fetch now ts qrData currentUserId w)),
      snd (processEmployeeCheckin rt fetch now ts qrData currentUserId w))"
  by (simp add: processEmployeeCheckin_def send_def split: sum.splits)

lemma resume_world:
  "token (snd (resume rt fetch c w)) = token w"
  "processedQRs (snd (resume rt fetch c w)) = processedQRs w"
  by (cases c; simp split: sum.splits)+

lemma outcome_token:
  assumes "token w' = token w"
  shows "outcome rt fetch c w' = outcome rt fetch c w"
  using processor_result(1) [OF assms] by (cases c) simp_all

lemma outcome_resume:
  "outcome rt fetch (fst (resume rt fetch c w)) (snd (resume rt fetch c w)) = outcome rt fetch c w"
  by (cases c) (simp_all add: processEmployeeCheckin_def send_def split: sum.splits)

lemma resume_outcome:
  "outcome rt fetch c' (snd (resume rt fetch a w)) = outcome rt fetch c' w"
  by (rule outcome_token) (rule resume_world)

lemma interleave_outcome:
  assumes "interleave rt fetch schedule (a, b, w) = (a', b', w')"
  shows "outcome rt fetch a' w' = outcome rt fetch a w \<and> outcome rt fetch b' w' = outcome rt fetch b w
         \<and> token w' = token w \<and> processedQRs w' = processedQRs w"
  using assms
proof (induction schedule arbitrary: a b w)
  case Nil
  then show ?case by simp
next
  case (Cons first schedule)
  show ?case
  proof (cases first)
    case True
    with Cons.prems have "interleave rt fetch schedule
        (fst (resume rt fetch a w), b, snd (resume rt fetch a w)) = (a', b', w')" by simp
    from Cons.IH [OF this] show ?thesis
      using outcome_resume [of rt fetch a w] resume_outcome [of rt fetch b a w]
      by (simp add: resume_world)
  next
    case False
    with Cons.prems have "interleave rt fetch schedule
        (a, fst (resume rt fetch b w), snd (resume rt fetch b w)) = (a', b', w')" by simp
    from Cons.IH [OF this] show ?thesis
      using outcome_resume [of rt fetch b w] resume_outcome [of rt fetch a b w]
      by (simp add: resume_world)
  qed
qed

text \<open>
  Claim C9 as stated fails: two calls on the same never-seen check-in code, both
  suspended at their \<^verbatim>\<open>fetch\<close> before either is resumed, both succeed, and two
  requests have been sent.
\<close>

theorem simultaneous_counterexample:
  "interleave (demoRuntime JNull) upstreamOk
      [True, False, True, False]
      (Called 2000 2001 (employeePayload (JStr ''emp-1'') JNull 1000 1000) ''emp-1'',
       Called 2000 2001 (employeePayload (JStr ''emp-1'') JNull 1000 1000) ''emp-1'',
       \<lparr>token = None, sent = [], processedQRs = {}\<rparr>)
   = (Returned (Inr (JObj [])), Returned (Inr (JObj [])),
      \<lparr>token = None,
       sent = [\<lparr>url = ''/api/attendance/checkin'', httpMethod = ''POST'',
                contentType = ''application/json'', authorization = ''Bearer null'',
                body = ''<q>''\<rparr>,
               \<lparr>url = ''/api/attendance/checkin'', httpMethod = ''POST'',
                contentType = ''application/json'', authorization = ''Bearer null'',
                body = ''<q>''\<rparr>],
       processedQRs = {}\<rparr>)"
  by (simp add: run_defs)

text \<open>
  Claim C9, amended: dispatch does not consult the replay set. Under every
  interleaving of two simultaneous \<^verbatim>\<open>processEmployeeCheckin\<close> calls on the same
  payload, each call returns what it would return alone (so both succeed when the
  upstream accepts both), and \<^verbatim>\<open>processedQRs\<close> is unchanged.
\<close>

theorem simultaneous_checkins:
  assumes "interleave rt fetch schedule
       (Called nowA tsA qrData userA, Called nowB tsB qrData userB, w) = (Returned ra, Returned rb, w')"
  shows "ra = fst (processEmployeeCheckin rt fetch nowA tsA qrData userA w)
       \<and> rb = fst (processEmployeeCheckin rt fetch nowB tsB qrData userB w)
       \<and> processedQRs w' = processedQRs w"
  using interleave_outcome [OF assms] by simp

text \<open>
  The amended claim C9 on a schedule that starts both calls before resuming either:
  \<^verbatim>\<open>emp-1\<close> is checked in and \<^verbatim>\<open>emp-2\<close> is refused, as each would be alone.
\<close>

theorem simultaneous_checkins_witness:
  "interleave (demoRuntime JNull) upstreamOk
      [True, False, False, True]
      (Called 2000 2001 (employeePayload (JStr ''emp-1'') JNull 1000 1000) ''emp-1'',
       Called 2002 2003 (employeePayload (JStr ''emp-1'') JNull 1000 1000) ''emp-2'',
       \<lparr>token = None, sent = [], processedQRs = {}\<rparr>)
   = (Returned (Inr (JObj [])), Returned (Inl DifferentEmployee),
      \<lparr>token = None,
       sent = [\<lparr>url = ''/api/attendance/checkin'', httpMethod = ''POST'',
                contentType = ''application/json'', authorization = ''Bearer null'',
                body = ''<q>''\<rparr>],
       processedQRs = {}\<rparr>)
   \<and> Inr (JObj []) = fst (processEmployeeCheckin (demoRuntime JNull)
        upstreamOk 2000 2001
        (employeePayload (JStr ''emp-1'') JNull 1000 1000) ''emp-1''
        \<lparr>token = None, sent = [], processedQRs = {}\<rparr>)
   \<and> Inl DifferentEmployee = fst (processEmployeeCheckin (demoRuntime JNull)
        upstreamOk 2002 2003
        (employeePayload (JStr ''emp-1'') JNull 1000 1000) ''emp-2''
        \<lparr>token = None, sent = [], processedQRs = {}\<rparr>)"
proof -
  let ?rt = "demoRuntime JNull"
  let ?p = "employeePayload (JStr ''emp-1'') JNull 1000 1000"
  let ?w = "\<lparr>token = None, sent = [], processedQRs = {}\<rparr>"
  let ?w' = "\<lparr>token = None,
       sent = [\<lparr>url = ''/api/attendance/checkin'', httpMethod = ''POST'',
                contentType = ''application/json'', authorization = ''Bearer null'',
                body = ''<q>''\<rparr>],
       processedQRs = {}\<rparr>"
  have run: "interleave ?rt upstreamOk [True, False, False, True]
      (Called 2000 2001 ?p ''emp-1'', Called 2002 2003 ?p ''emp-2'', ?w)
      = (Returned (Inr (JObj [])), Returned (Inl DifferentEmployee), ?w')"
    by (simp add: run_defs)
  show ?thesis
    using simultaneous_checkins [OF run] run by simp
qed

section \<open>The rate limit\<close>

text \<open>
  Where \<^verbatim>\<open>this.rateLimitQRGeneration\<close> is a map, the function does what its body
  says: it throws \<^verbatim>\<open>'Rate limit exceeded'\<close> exactly when at least 10 of the user's
  recorded times are later than \<open>now - 60000\<close>, and otherwise records those times
  followed by \<open>now\<close>.
\<close>

lemma checkRateLimit_bound:
  "checkRateLimit (Some m) now userId =
     (if 10 \<le> length (filter (\<lambda>time. now - 60000 < time) (requestsOf m userId))
      then Inl RateLimitExceeded
      else Inr (m(userId \<mapsto> filter (\<lambda>time. now - 60000 < time) (requestsOf m userId) @ [now])))"
proof -
  have "filter (\<lambda>time. now - time < 60000) xs = filter (\<lambda>time. now - 60000 < time) xs" for xs
    by (rule filter_cong) auto
  then show ?thesis by (simp add: checkRateLimit_def Let_def)
qed

text \<open>
  Claim C10 fails on the code as written: in the arrow function \<^verbatim>\<open>this\<close> is not
  the object that holds the map, \<^verbatim>\<open>this.rateLimitQRGeneration\<close> is no map, and the
  first call of a user, which the claim says is recorded, throws a type error.
\<close>

theorem rate_limit_this_unbound:
  "checkRateLimit None 1000 ''u1'' = Inl JsTypeError"
  by (simp add: checkRateLimit_def)

end
